theory Spec2Isabelle
  imports Complex_Main
begin

section \<open>Arithmetic of the source language\<close>

text \<open>
  The program is written in Go. Its \<open>int\<close> is taken to be 64 bits wide, like \<open>int64\<close>,
  as on every 64-bit platform: a value is an integer between \<open>-2^63\<close> and \<open>2^63 - 1\<close> and
  every operation wraps around. A finite \<open>float64\<close> is the real number it stands for, and
  every floating-point operation yields the exact result rounded to the nearest
  representable number, ties to even (IEEE 754 binary64). The sign of a zero is not
  modelled; it only shows in a division by zero.
\<close>

datatype abnormal =
    DivideByZero              \<comment> \<open>run-time panic: integer divide by zero\<close>
  | UnsupportedPixelFormat    \<comment> \<open>\<open>panic\<close> in \<open>getBytesPerPixel\<close>\<close>
  | UnsupportedFileFormat     \<comment> \<open>\<open>panic\<close> in \<open>getPixelFormat\<close>\<close>
  | FloatNonFinite            \<comment> \<open>an infinity or NaN arises: outside the model\<close>
  | IntConversionUndefined    \<comment> \<open>\<open>int(x)\<close> of a float outside the range of \<open>int\<close>:
                                  implementation-defined in Go, outside the model\<close>

subsection \<open>Integers\<close>

definition wrap64 :: "int \<Rightarrow> int" where
  "wrap64 n = (n + 2 ^ 63) mod 2 ^ 64 - 2 ^ 63"

text \<open>Go's integer \<open>/\<close> truncates toward zero and \<open>%\<close> takes the sign of the dividend.\<close>

definition go_quo :: "int \<Rightarrow> int \<Rightarrow> int" where
  "go_quo a b = sgn a * sgn b * (\<bar>a\<bar> div \<bar>b\<bar>)"

definition go_rem :: "int \<Rightarrow> int \<Rightarrow> int" where
  "go_rem a b = a - b * go_quo a b"

definition int64_add :: "int \<Rightarrow> int \<Rightarrow> int" where
  "int64_add a b = wrap64 (a + b)"

definition int64_sub :: "int \<Rightarrow> int \<Rightarrow> int" where
  "int64_sub a b = wrap64 (a - b)"

definition int64_mul :: "int \<Rightarrow> int \<Rightarrow> int" where
  "int64_mul a b = wrap64 (a * b)"

definition int64_quo :: "int \<Rightarrow> int \<Rightarrow> int" where
  "int64_quo a b = wrap64 (go_quo a b)"

subsection \<open>Floating point\<close>

text \<open>
  Rounding to the nearest integer, ties to even; the spacing of the representable numbers
  around \<open>x\<close> (53 significant bits, subnormal below \<open>2^-1022\<close>); and the rounding of a real
  number to binary64. A rounded value of magnitude \<open>2^1024\<close> or more is an overflow to an
  infinity.
\<close>

definition round_half_even :: "real \<Rightarrow> int" where
  "round_half_even y =
     (let n = \<lfloor>y\<rfloor>; d = y - of_int n
      in if d < 1 / 2 then n else if 1 / 2 < d then n + 1 else if even n then n else n + 1)"

definition f64_ulp :: "real \<Rightarrow> real" where
  "f64_ulp x = 2 powr (of_int (max \<lfloor>log 2 \<bar>x\<bar>\<rfloor> (- 1022)) - 52)"

definition f64_round :: "real \<Rightarrow> real" where
  "f64_round x = (if x = 0 then 0 else f64_ulp x * of_int (round_half_even (x / f64_ulp x)))"

definition f64_result :: "real \<Rightarrow> real option" where
  "f64_result x = (if \<bar>f64_round x\<bar> < 2 ^ 1024 then Some (f64_round x) else None)"

text \<open>
  \<open>float64(n)\<close>, the product, the quotient and \<open>math.Sqrt\<close>; \<open>None\<close> is an infinity or a
  NaN.
\<close>

definition f64_of_int :: "int \<Rightarrow> real" where
  "f64_of_int n = f64_round (of_int n)"

definition f64_mul :: "real \<Rightarrow> real \<Rightarrow> real option" where
  "f64_mul x y = f64_result (x * y)"

definition f64_div :: "real \<Rightarrow> real \<Rightarrow> real option" where
  "f64_div x y = (if y = 0 then None else f64_result (x / y))"

definition f64_sqrt :: "real \<Rightarrow> real option" where
  "f64_sqrt x = (if x < 0 then None else Some (f64_round (sqrt x)))"

text \<open>
  The conversion \<open>int(x)\<close> of a finite float truncates toward zero; \<open>None\<close> when the
  result is outside the range of \<open>int\<close>. \<open>math.Floor\<close> is exact.
\<close>

definition go_int :: "real \<Rightarrow> int" where
  "go_int x = (if 0 \<le> x then \<lfloor>x\<rfloor> else \<lceil>x\<rceil>)"

definition int_of_f64 :: "real \<Rightarrow> int option" where
  "int_of_f64 x = (if - (2 ^ 63) \<le> go_int x \<and> go_int x < 2 ^ 63 then Some (go_int x) else None)"

definition f64_floor :: "real \<Rightarrow> real" where
  "f64_floor x = of_int \<lfloor>x\<rfloor>"

section \<open>Pixel formats\<close>

text \<open>
  \<open>type PixelFormat int\<close> with the constants \<open>Format8bppIndexed\<close>, \<open>Format24bppRgb\<close>,
  \<open>Format32bppArgb\<close> numbered by \<open>iota\<close>.
\<close>

type_synonym PixelFormat = int

definition Format8bppIndexed :: PixelFormat where "Format8bppIndexed = 0"
definition Format24bppRgb :: PixelFormat where "Format24bppRgb = 1"
definition Format32bppArgb :: PixelFormat where "Format32bppArgb = 2"

definition getBytesPerPixel :: "PixelFormat \<Rightarrow> abnormal + int" where
  "getBytesPerPixel pixelFormat =
     (if pixelFormat = Format8bppIndexed then Inr 1
      else if pixelFormat = Format24bppRgb \<or> pixelFormat = Format32bppArgb then Inr 4
      else Inl UnsupportedPixelFormat)"

section \<open>The resolution solver\<close>

text \<open>
  One pass of the \<open>for\<close> loop of \<open>calculateMaxResolution\<close>, statement by statement: the
  candidate \<open>height\<close>, \<open>width\<close>, \<open>stride\<close> and \<open>totalMemory\<close> computed from the current
  estimate, then either the returned pair or the next estimate.
\<close>

datatype step = Next real | Return "abnormal + int \<times> int"

definition solverStep :: "real \<Rightarrow> int \<Rightarrow> int \<Rightarrow> int \<Rightarrow> int \<Rightarrow> real \<Rightarrow> step" where
  "solverStep aspectRatio bytesPerPixel alignment memoryLimit dpi estimatedHeight =
     (case int_of_f64 (f64_floor estimatedHeight) of
        None \<Rightarrow> Return (Inl IntConversionUndefined)
      | Some height \<Rightarrow>
     (case f64_mul aspectRatio (f64_of_int height) of
        None \<Rightarrow> Return (Inl FloatNonFinite)
      | Some widthF \<Rightarrow>
     (case int_of_f64 (f64_floor widthF) of
        None \<Rightarrow> Return (Inl IntConversionUndefined)
      | Some width \<Rightarrow>
        if alignment = 0 then Return (Inl DivideByZero)
        else
          let stride = int64_mul
                         (int64_quo
                            (int64_sub (int64_add (int64_mul width bytesPerPixel) alignment) 1)
                            alignment)
                         alignment;
              totalMemory = int64_mul stride height
          in if totalMemory \<le> memoryLimit then
               (if dpi = 0 then Return (Inl DivideByZero)
                else
                  let newWidth = int64_sub width (go_rem width dpi)
                  in case f64_div (f64_of_int newWidth) aspectRatio of
                       None \<Rightarrow> Return (Inl FloatNonFinite)
                     | Some quotientF \<Rightarrow>
                        (case int_of_f64 quotientF of
                           None \<Rightarrow> Return (Inl IntConversionUndefined)
                         | Some newHeight \<Rightarrow> Return (Inr (newWidth, newHeight))))
             else
               (case f64_mul (f64_of_int stride) (f64_of_int bytesPerPixel) of
                  None \<Rightarrow> Return (Inl FloatNonFinite)
                | Some denom \<Rightarrow>
                   (case f64_div (f64_of_int memoryLimit) denom of
                      None \<Rightarrow> Return (Inl FloatNonFinite)
                    | Some quotientF \<Rightarrow>
                       (case f64_sqrt quotientF of
                          None \<Rightarrow> Return (Inl FloatNonFinite)
                        | Some estimatedHeight' \<Rightarrow> Next estimatedHeight'))))))"

text \<open>The loop has no bound in the source, so not returning is the value \<open>None\<close>.\<close>

partial_function (option) solverLoop ::
  "real \<Rightarrow> int \<Rightarrow> int \<Rightarrow> int \<Rightarrow> int \<Rightarrow> real \<Rightarrow> (abnormal + int \<times> int) option" where
  "solverLoop aspectRatio bytesPerPixel alignment memoryLimit dpi estimatedHeight =
     (case solverStep aspectRatio bytesPerPixel alignment memoryLimit dpi estimatedHeight of
        Return r \<Rightarrow> Some r
      | Next estimatedHeight' \<Rightarrow>
          solverLoop aspectRatio bytesPerPixel alignment memoryLimit dpi estimatedHeight')"

definition calculateMaxResolution ::
  "int \<Rightarrow> int \<Rightarrow> PixelFormat \<Rightarrow> int \<Rightarrow> int \<Rightarrow> int \<Rightarrow> (abnormal + int \<times> int) option" where
  "calculateMaxResolution originalWidth originalHeight pixelFormat alignment memoryLimit dpi =
     (case getBytesPerPixel pixelFormat of
        Inl p \<Rightarrow> Some (Inl p)
      | Inr bytesPerPixel \<Rightarrow>
     (case f64_div (f64_of_int originalWidth) (f64_of_int originalHeight) of
        None \<Rightarrow> Some (Inl FloatNonFinite)
      | Some aspectRatio \<Rightarrow>
     (case f64_mul (f64_of_int bytesPerPixel) aspectRatio of
        None \<Rightarrow> Some (Inl FloatNonFinite)
      | Some denom \<Rightarrow>
     (case f64_div (f64_of_int memoryLimit) denom of
        None \<Rightarrow> Some (Inl FloatNonFinite)
      | Some quotientF \<Rightarrow>
     (case f64_sqrt quotientF of
        None \<Rightarrow> Some (Inl FloatNonFinite)
      | Some estimatedHeight \<Rightarrow>
          solverLoop aspectRatio bytesPerPixel alignment memoryLimit dpi estimatedHeight)))))"

text \<open>The preconditions of the solver.\<close>

definition validInput :: "int \<Rightarrow> int \<Rightarrow> PixelFormat \<Rightarrow> int \<Rightarrow> int \<Rightarrow> bool" where
  "validInput originalWidth originalHeight pixelFormat alignment memoryLimit \<longleftrightarrow>
     0 < originalWidth \<and> 0 < originalHeight \<and> 0 < alignment \<and> 0 < memoryLimit
     \<and> (pixelFormat = Format8bppIndexed \<or> pixelFormat = Format24bppRgb
        \<or> pixelFormat = Format32bppArgb)"

section \<open>Strings and paths\<close>

text \<open>
  The few functions of Go's \<open>strings\<close> and \<open>path/filepath\<close> packages that the program
  calls, on byte strings with \<open>/\<close> as the path separator. \<open>strings.ToLower\<close> is modelled
  on ASCII letters. \<open>filepath.Join\<close> is left to the environment (see \<open>env\<close> below).
\<close>

definition toLowerChar :: "char \<Rightarrow> char" where
  "toLowerChar c =
     (case map_of (zip ''ABCDEFGHIJKLMNOPQRSTUVWXYZ'' ''abcdefghijklmnopqrstuvwxyz'') c of
        Some l \<Rightarrow> l
      | None \<Rightarrow> c)"

definition toLower :: "string \<Rightarrow> string" where
  "toLower s = map toLowerChar s"

text \<open>
  \<open>filepath.Ext\<close> scans the path from its end: the suffix from the last dot of the last
  path element, or the empty string. The first argument is the reversed rest of the path.
\<close>

fun extScan :: "string \<Rightarrow> string \<Rightarrow> string" where
  "extScan [] seen = []"
| "extScan (c # cs) seen =
     (if c = CHR ''/'' then []
      else if c = CHR ''.'' then c # seen
      else extScan cs (c # seen))"

definition pathExt :: "string \<Rightarrow> string" where
  "pathExt path = extScan (rev path) []"

definition pathBase :: "string \<Rightarrow> string" where
  "pathBase path =
     (if path = [] then ''.''
      else
        let stripped = dropWhile (\<lambda>c. c = CHR ''/'') (rev path);
            last_elem = rev (takeWhile (\<lambda>c. c \<noteq> CHR ''/'') stripped)
        in if last_elem = [] then ''/'' else last_elem)"

definition trimSuffix :: "string \<Rightarrow> string \<Rightarrow> string" where
  "trimSuffix s suffix =
     (if length suffix \<le> length s \<and> drop (length s - length suffix) s = suffix
      then take (length s - length suffix) s else s)"

text \<open>\<open>%d\<close> of \<open>fmt.Sprintf\<close>.\<close>

fun showNat :: "nat \<Rightarrow> string" where
  "showNat n =
     (if n < 10 then [''0123456789'' ! n]
      else showNat (n div 10) @ [''0123456789'' ! (n mod 10)])"

definition showInt :: "int \<Rightarrow> string" where
  "showInt i = (if i < 0 then ''-'' @ showNat (nat (- i)) else showNat (nat i))"

definition isValidImageExtension :: "string \<Rightarrow> bool" where
  "isValidImageExtension ext \<longleftrightarrow> ext = ''.jpg'' \<or> ext = ''.jpeg'' \<or> ext = ''.png''"

definition getPixelFormat :: "string \<Rightarrow> abnormal + PixelFormat" where
  "getPixelFormat fileExt =
     (let e = toLower fileExt
      in if e = ''.png'' then Inr Format32bppArgb
         else if e = ''.jpg'' \<or> e = ''.jpeg'' then Inr Format24bppRgb
         else Inl UnsupportedFileFormat)"

datatype algorithm = Lanczos3 | Bilinear | NearestNeighbor

definition getResizeAlgorithm :: "string \<Rightarrow> algorithm" where
  "getResizeAlgorithm name =
     (let n = toLower name
      in if n = ''bilinear'' then Bilinear
         else if n = ''nearest'' then NearestNeighbor
         else Lanczos3)"

section \<open>Floating-point quotients of integers\<close>

text \<open>
  \<open>extractDPI\<close> divides two integers as \<open>float64\<close> values; a zero denominator gives an
  infinity or a NaN, which is not a run-time error in Go. The result of \<open>int(x)\<close> on such a
  value is implementation-defined and is taken from the environment.
\<close>

datatype f64 = Finite real | PosInf | NegInf | NaN

definition f64_quotient :: "int \<Rightarrow> int \<Rightarrow> f64" where
  "f64_quotient num den =
     (if den \<noteq> 0 then Finite (real_of_int num / real_of_int den)
      else if 0 < num then PosInf else if num < 0 then NegInf else NaN)"

definition f64_eq :: "f64 \<Rightarrow> f64 \<Rightarrow> bool" where
  "f64_eq x y \<longleftrightarrow> x \<noteq> NaN \<and> x = y"

definition f64_to_int :: "(f64 \<Rightarrow> int) \<Rightarrow> f64 \<Rightarrow> int" where
  "f64_to_int platform x = (case x of Finite r \<Rightarrow> go_int r | _ \<Rightarrow> platform x)"

section \<open>The environment and the state of a run\<close>

text \<open>
  What the operating system and the third-party libraries answer is the environment of a
  run; nothing is assumed about it. An \<open>error\<close> of Go is modelled by its message, and
  \<open>None\<close> stands for \<open>nil\<close>. The decoded image is an abstract value \<open>'img\<close>. The answers of
  the environment do not change during a run.
\<close>

datatype rat2_result = Rat2Error string | Rat2 int int
  \<comment> \<open>\<open>tag.Rat2(0)\<close>: an error, or numerator and denominator\<close>

datatype tag_result = GetError string | Tag rat2_result
  \<comment> \<open>\<open>e.Get(name)\<close>: an error, or the tag\<close>

datatype exif_result = ExifError string | Exif tag_result tag_result
  \<comment> \<open>\<open>exif.Decode(file)\<close>: an error, or the metadata with its \<open>XResolution\<close> and
     \<open>YResolution\<close> lookups\<close>

datatype dirent = FileEnt string | DirEnt string "dirent list"
  \<comment> \<open>a directory entry by name; the entries of a directory in the order of \<open>WalkDir\<close>\<close>

record 'img env =
  startedByExplorer :: bool                              \<comment> \<open>\<open>mousetrap.StartedByExplorer()\<close>\<close>
  scanlnFails :: bool                                    \<comment> \<open>\<open>fmt.Scanln()\<close> returns an error\<close>
  statPath :: "string \<Rightarrow> string + bool"                   \<comment> \<open>\<open>os.Stat\<close>: error, or \<open>IsDir()\<close>\<close>
  dirEntries :: "string \<Rightarrow> dirent list"                  \<comment> \<open>the tree below a directory\<close>
  mkdirAll :: "string \<Rightarrow> string option"                  \<comment> \<open>\<open>os.MkdirAll\<close>\<close>
  joinPath :: "string \<Rightarrow> string \<Rightarrow> string"                \<comment> \<open>\<open>filepath.Join\<close>\<close>
  openFile :: "string \<Rightarrow> string option"                  \<comment> \<open>\<open>os.Open\<close>\<close>
  exifDecode :: "string \<Rightarrow> exif_result"                  \<comment> \<open>\<open>exif.Decode\<close> and the lookups\<close>
  nonFiniteInt :: "f64 \<Rightarrow> int"                          \<comment> \<open>\<open>int(x)\<close> for an infinite or NaN \<open>x\<close>\<close>
  decodeImage :: "string \<Rightarrow> string + 'img \<times> string"       \<comment> \<open>\<open>image.Decode\<close>: image and format\<close>
  bounds :: "'img \<Rightarrow> int \<times> int"                          \<comment> \<open>\<open>Bounds().Dx()\<close>, \<open>Bounds().Dy()\<close>\<close>
  resizeLib :: "nat \<Rightarrow> nat \<Rightarrow> 'img \<Rightarrow> algorithm \<Rightarrow> 'img"    \<comment> \<open>\<open>resize.Resize\<close>\<close>
  createFile :: "string \<Rightarrow> string option"                \<comment> \<open>\<open>os.Create\<close>\<close>
  pngEncode :: "'img \<Rightarrow> string option"                    \<comment> \<open>\<open>png.Encode\<close>\<close>
  jpegEncode :: "'img \<Rightarrow> int \<Rightarrow> string option"            \<comment> \<open>\<open>jpeg.Encode\<close> with a quality\<close>
  writeFile :: "string \<Rightarrow> string option"                 \<comment> \<open>\<open>outFile.Write\<close>\<close>

text \<open>
  The state: the global \<open>messageQueue\<close>, the lines printed on standard output, the calls
  made to the file system in their order, and the ticks of the progress bar.
\<close>

datatype fs_event =
    FsStat string | FsWalk string | FsMkdirAll string | FsOpen string
  | FsCreate string | FsWrite string

record world =
  messageQueue :: "string list"
  console :: "string list"
  fsLog :: "fs_event list"
  barCount :: nat

definition fsCall :: "fs_event \<Rightarrow> world \<Rightarrow> world" where
  "fsCall ev w = w\<lparr>fsLog := fsLog w @ [ev]\<rparr>"

definition println :: "string \<Rightarrow> world \<Rightarrow> world" where
  "println line w = w\<lparr>console := console w @ [line]\<rparr>"

text \<open>
  A call either does not return (the solver's loop), or stops the program abnormally, or
  returns a value; the state reached is kept in the last two cases.
\<close>

datatype 'a outcome = Diverges | Aborts abnormal world | Returns 'a world

section \<open>The diagnostic sink\<close>

text \<open>
  \<open>safePrint\<close> and \<open>flushMessages\<close> hold \<open>messageMutex\<close> for their whole body, so each is
  one atomic step on the state.
\<close>

definition safePrint :: "string \<Rightarrow> world \<Rightarrow> world" where
  "safePrint message w = w\<lparr>messageQueue := messageQueue w @ [message]\<rparr>"

definition flushMessages :: "world \<Rightarrow> world" where
  "flushMessages w =
     (foldl (\<lambda>w' message. println message w') w (messageQueue w))\<lparr>messageQueue := []\<rparr>"

section \<open>The DPI resolver\<close>

definition extractDPI :: "'img env \<Rightarrow> string \<Rightarrow> world \<Rightarrow> (string + int) \<times> world" where
  "extractDPI env filePath w =
     (let w1 = fsCall (FsOpen filePath) w
      in case openFile env filePath of
           Some err \<Rightarrow> (Inl (''failed to open file: '' @ err), w1)
         | None \<Rightarrow>
            (case exifDecode env filePath of
               ExifError err \<Rightarrow> (Inl (''no EXIF data or corrupted EXIF data: '' @ err), w1)
             | Exif (GetError err) yResolution \<Rightarrow>
                 (Inl (''failed to get XResolution: '' @ err), w1)
             | Exif (Tag xResolution) (GetError err) \<Rightarrow>
                 (Inl (''failed to get YResolution: '' @ err), w1)
             | Exif (Tag (Rat2Error err)) (Tag yResolution) \<Rightarrow>
                 (Inl (''error reading XResolution: '' @ err), w1)
             | Exif (Tag (Rat2 xNum xDen)) (Tag (Rat2Error err)) \<Rightarrow>
                 (Inl (''error reading YResolution: '' @ err), w1)
             | Exif (Tag (Rat2 xNum xDen)) (Tag (Rat2 yNum yDen)) \<Rightarrow>
                 (let x = f64_quotient xNum xDen;
                      y = f64_quotient yNum yDen
                  in if f64_eq x y then (Inr (f64_to_int (nonFiniteInt env) x), w1)
                     else (Inr (f64_to_int (nonFiniteInt env) x), w1))))"

text \<open>
  The block of \<open>processFile\<close> that chooses the DPI: the override when it is not 0,
  otherwise the extracted value, otherwise 72.
\<close>

definition resolveDPI :: "'img env \<Rightarrow> int \<Rightarrow> string \<Rightarrow> world \<Rightarrow> int \<times> world" where
  "resolveDPI env overrideDPI filePath w =
     (if overrideDPI = 0 then
        (case extractDPI env filePath w of
           (Inr extractedDPI, w1) \<Rightarrow>
             (extractedDPI,
              safePrint (''Extracted DPI for '' @ filePath @ '': '' @ showInt extractedDPI) w1)
         | (Inl err, w1) \<Rightarrow>
             (72, safePrint (''Failed to extract DPI for '' @ filePath @ '': '' @ err) w1))
      else (overrideDPI, w))"

section \<open>Resizing one file\<close>

text \<open>\<open>uint(n)\<close> of a 64-bit \<open>int\<close>.\<close>

definition go_uint :: "int \<Rightarrow> nat" where
  "go_uint n = nat (n mod 2 ^ 64)"

definition saveImage ::
  "'img env \<Rightarrow> 'img \<Rightarrow> string \<Rightarrow> string \<Rightarrow> int \<Rightarrow> world \<Rightarrow> string option \<times> world" where
  "saveImage env img outputPath format quality w =
     (let w1 = fsCall (FsCreate outputPath) w
      in case createFile env outputPath of
           Some err \<Rightarrow> (Some (''failed to create output file: '' @ err), w1)
         | None \<Rightarrow>
            if format = ''png'' then
              (case pngEncode env img of
                 Some err \<Rightarrow> (Some (''failed to encode PNG: '' @ err), fsCall (FsWrite outputPath) w1)
               | None \<Rightarrow> (None, fsCall (FsWrite outputPath) w1))
            else if format = ''jpeg'' then
              (case jpegEncode env img quality of
                 Some err \<Rightarrow> (Some (''failed to encode JPEG: '' @ err), fsCall (FsWrite outputPath) w1)
               | None \<Rightarrow> (None, fsCall (FsWrite outputPath) w1))
            else (Some (''unsupported output format: '' @ format), w1))"

text \<open>
  \<open>resizeImage\<close> of the variant with the diagnostic sink. Its parameter \<open>dryRun\<close> is not
  read by the body.
\<close>

definition resizeImage ::
  "'img env \<Rightarrow> string \<Rightarrow> string \<Rightarrow> bool \<Rightarrow> int \<Rightarrow> algorithm \<Rightarrow> int \<Rightarrow> int \<Rightarrow> world
     \<Rightarrow> string option outcome" where
  "resizeImage env filePath outputPath dryRun memoryLimit algo quality dpi w =
     (let w1 = fsCall (FsOpen filePath) w
      in case openFile env filePath of
           Some err \<Rightarrow> Returns (Some (''failed to open file: '' @ err)) w1
         | None \<Rightarrow>
            (case decodeImage env filePath of
               Inl err \<Rightarrow> Returns (Some (''failed to decode image: '' @ err)) w1
             | Inr (img, format) \<Rightarrow>
                (let originalWidth = fst (bounds env img);
                     originalHeight = snd (bounds env img)
                 in case getPixelFormat (pathExt filePath) of
                      Inl p \<Rightarrow> Aborts p w1
                    | Inr pixelFormat \<Rightarrow>
                       (case calculateMaxResolution originalWidth originalHeight pixelFormat 4
                               memoryLimit dpi of
                          None \<Rightarrow> Diverges
                        | Some (Inl p) \<Rightarrow> Aborts p w1
                        | Some (Inr (newWidth, newHeight)) \<Rightarrow>
                           if newWidth < originalWidth \<or> newHeight < originalHeight then
                             (let resized = resizeLib env (go_uint newWidth) (go_uint newHeight)
                                              img algo;
                                  newDPI = go_int (of_int newWidth
                                                     / (of_int originalWidth / of_int dpi));
                                  w2 = safePrint (''Resized '' @ filePath @ '' to ''
                                         @ showInt newWidth @ ''x'' @ showInt newHeight
                                         @ '' with a DPI of '' @ showInt newDPI) w1
                              in case saveImage env resized outputPath format quality w2 of
                                   (err, w3) \<Rightarrow> Returns err w3)
                           else Returns None w1))))"

text \<open>
  The sibling variant of \<open>saveImage\<close> and \<open>resizeImage\<close> (the one that prints directly and
  has no sink): there the save is guarded by \<open>if !dryRun\<close>. Its JPEG branch encodes into a
  buffer and then writes the buffer to the file.
\<close>

definition saveImage_direct ::
  "'img env \<Rightarrow> 'img \<Rightarrow> string \<Rightarrow> string \<Rightarrow> int \<Rightarrow> int \<Rightarrow> world \<Rightarrow> string option \<times> world" where
  "saveImage_direct env img outputPath format quality dpi w =
     (let w1 = fsCall (FsCreate outputPath) w
      in case createFile env outputPath of
           Some err \<Rightarrow> (Some (''failed to create output file: '' @ err), w1)
         | None \<Rightarrow>
            if format = ''png'' then
              (case pngEncode env img of
                 Some err \<Rightarrow> (Some (''failed to encode PNG: '' @ err), fsCall (FsWrite outputPath) w1)
               | None \<Rightarrow> (None, fsCall (FsWrite outputPath) w1))
            else if format = ''jpeg'' then
              (case jpegEncode env img quality of
                 Some err \<Rightarrow> (Some (''failed to encode JPEG: '' @ err), w1)
               | None \<Rightarrow>
                  (case writeFile env outputPath of
                     Some err \<Rightarrow>
                       (Some (''failed to write JPEG data: '' @ err), fsCall (FsWrite outputPath) w1)
                   | None \<Rightarrow> (None, fsCall (FsWrite outputPath) w1)))
            else (Some (''unsupported output format: '' @ format), w1))"

definition resizeImage_direct ::
  "'img env \<Rightarrow> string \<Rightarrow> string \<Rightarrow> bool \<Rightarrow> int \<Rightarrow> algorithm \<Rightarrow> int \<Rightarrow> int \<Rightarrow> world
     \<Rightarrow> string option outcome" where
  "resizeImage_direct env filePath outputPath dryRun memoryLimit algo quality dpi w =
     (let w1 = fsCall (FsOpen filePath) w
      in case openFile env filePath of
           Some err \<Rightarrow> Returns (Some (''failed to open file: '' @ err)) w1
         | None \<Rightarrow>
            (case decodeImage env filePath of
               Inl err \<Rightarrow> Returns (Some (''failed to decode image: '' @ err)) w1
             | Inr (img, format) \<Rightarrow>
                (let originalWidth = fst (bounds env img);
                     originalHeight = snd (bounds env img)
                 in case getPixelFormat (pathExt filePath) of
                      Inl p \<Rightarrow> Aborts p w1
                    | Inr pixelFormat \<Rightarrow>
                       (case calculateMaxResolution originalWidth originalHeight pixelFormat 4
                               memoryLimit dpi of
                          None \<Rightarrow> Diverges
                        | Some (Inl p) \<Rightarrow> Aborts p w1
                        | Some (Inr (newWidth, newHeight)) \<Rightarrow>
                           if newWidth < originalWidth \<or> newHeight < originalHeight then
                             (let resized = resizeLib env (go_uint newWidth) (go_uint newHeight)
                                              img algo;
                                  newDPI = go_int (of_int newWidth
                                                     / (of_int originalWidth / of_int dpi));
                                  w2 = println (''Rescaled to '' @ showInt newWidth @ ''x''
                                         @ showInt newHeight @ '' with DPI '' @ showInt newDPI) w1
                              in if \<not> dryRun then
                                   (case saveImage_direct env resized outputPath format quality
                                           newDPI w2 of
                                      (Some err, w3) \<Rightarrow> Returns (Some err) w3
                                    | (None, w3) \<Rightarrow> Returns None w3)
                                 else Returns None w2)
                           else Returns None w1))))"

section \<open>The batch pipeline\<close>

text \<open>
  \<open>processFile\<close>; its deferred \<open>bar.Increment()\<close> runs on every return. The workers are
  goroutines in the source; the model runs them one after the other in the order of the
  file list.
\<close>

definition tick :: "world \<Rightarrow> world" where
  "tick w = w\<lparr>barCount := Suc (barCount w)\<rparr>"

definition outputPathOf :: "'img env \<Rightarrow> string \<Rightarrow> string \<Rightarrow> string" where
  "outputPathOf env outputDir filePath =
     joinPath env outputDir
       (trimSuffix (pathBase filePath) (pathExt filePath) @ ''-resized'' @ pathExt filePath)"

definition processFile ::
  "'img env \<Rightarrow> string \<Rightarrow> int \<Rightarrow> string \<Rightarrow> algorithm \<Rightarrow> int \<Rightarrow> bool \<Rightarrow> int \<Rightarrow> world
     \<Rightarrow> unit outcome" where
  "processFile env filePath memoryLimit outputDir algo quality dryRun overrideDPI w =
     (let w1 = fsCall (FsMkdirAll outputDir) w
      in case mkdirAll env outputDir of
           Some err \<Rightarrow>
             Returns () (tick (safePrint (''Error creating output directory: '' @ err) w1))
         | None \<Rightarrow>
            (let outputPath = outputPathOf env outputDir filePath;
                 w2 = fsCall (FsStat outputPath) w1
             in case statPath env outputPath of
                  Inr isDir \<Rightarrow>
                    Returns () (tick (safePrint (''Skipping existing file: '' @ outputPath) w2))
                | Inl statErr \<Rightarrow>
                   (case resolveDPI env overrideDPI filePath w2 of
                      (dpi, w3) \<Rightarrow>
                        (let w4 = safePrint (''Processing '' @ filePath) w3
                         in case resizeImage env filePath outputPath dryRun memoryLimit algo
                                   quality dpi w4 of
                              Diverges \<Rightarrow> Diverges
                            | Aborts p w5 \<Rightarrow> Aborts p (tick w5)
                            | Returns (Some err) w5 \<Rightarrow>
                                Returns () (tick (safePrint (''Error resizing image: '' @ err) w5))
                            | Returns None w5 \<Rightarrow> Returns () (tick w5)))))"

text \<open>
  \<open>collectFiles\<close>: the callback given to \<open>filepath.WalkDir\<close>, followed over the tree
  below \<open>dir\<close>. A directory other than \<open>dir\<close> is skipped unless \<open>recursive\<close>. Directories
  are taken to be readable.
\<close>

fun walkEntry :: "(string \<Rightarrow> string \<Rightarrow> string) \<Rightarrow> bool \<Rightarrow> string \<Rightarrow> string \<Rightarrow> dirent \<Rightarrow> string list" where
  "walkEntry join recursive dir parent (FileEnt name) =
     (if isValidImageExtension (toLower (pathExt name)) then [join parent name] else [])"
| "walkEntry join recursive dir parent (DirEnt name entries) =
     (if \<not> recursive \<and> join parent name \<noteq> dir then []
      else concat (map (walkEntry join recursive dir (join parent name)) entries))"

definition collectFiles :: "'img env \<Rightarrow> string \<Rightarrow> bool \<Rightarrow> string list" where
  "collectFiles env dir recursive =
     concat (map (walkEntry (joinPath env) recursive dir dir) (dirEntries env dir))"

fun processFiles ::
  "'img env \<Rightarrow> int \<Rightarrow> string \<Rightarrow> algorithm \<Rightarrow> int \<Rightarrow> bool \<Rightarrow> int \<Rightarrow> string list \<Rightarrow> world
     \<Rightarrow> unit outcome" where
  "processFiles env memoryLimit outputDir algo quality dryRun dpi [] w = Returns () w"
| "processFiles env memoryLimit outputDir algo quality dryRun dpi (file # files) w =
     (if isValidImageExtension (toLower (pathExt file)) then
        (case processFile env file memoryLimit outputDir algo quality dryRun dpi w of
           Diverges \<Rightarrow> Diverges
         | Aborts p w' \<Rightarrow> Aborts p w'
         | Returns u w' \<Rightarrow> processFiles env memoryLimit outputDir algo quality dryRun dpi files w')
      else processFiles env memoryLimit outputDir algo quality dryRun dpi files w)"

definition processPath ::
  "'img env \<Rightarrow> string \<Rightarrow> int \<Rightarrow> string \<Rightarrow> algorithm \<Rightarrow> int \<Rightarrow> bool \<Rightarrow> bool \<Rightarrow> int \<Rightarrow> world
     \<Rightarrow> unit outcome" where
  "processPath env path memoryLimit outputDir algo quality dryRun recursive dpi w =
     (let w1 = fsCall (FsStat path) w
      in case statPath env path of
           Inl err \<Rightarrow> Returns () (safePrint (''Error accessing path: '' @ err) w1)
         | Inr isDir \<Rightarrow>
            (let files = (if isDir then collectFiles env path recursive else [path]);
                 w2 = (if isDir then fsCall (FsWalk path) w1 else w1);
                 w3 = safePrint (''Processing '' @ showInt (int (length files)) @ '' files'') w2
             in case processFiles env memoryLimit outputDir algo quality dryRun dpi files w3 of
                  Diverges \<Rightarrow> Diverges
                | Aborts p w4 \<Rightarrow> Aborts p w4
                | Returns u w4 \<Rightarrow> Returns () (flushMessages w4)))"

section \<open>The command line\<close>

text \<open>
  The flags and positional arguments as the \<open>cli\<close> library hands them to the action. The
  library returns the action's error from \<open>app.Run\<close>; it ends the process by itself only for
  an error that carries an exit code, which an error made by \<open>fmt.Errorf\<close> does not.
\<close>

record cliContext =
  memoryFlag :: int
  outputFlag :: string
  algorithmFlag :: string
  qualityFlag :: int
  dryRunFlag :: bool
  recursiveFlag :: bool
  dpiFlag :: int
  positional :: "string list"

fun processPaths ::
  "'img env \<Rightarrow> int \<Rightarrow> string \<Rightarrow> algorithm \<Rightarrow> int \<Rightarrow> bool \<Rightarrow> bool \<Rightarrow> int \<Rightarrow> string list \<Rightarrow> world
     \<Rightarrow> unit outcome" where
  "processPaths env memoryLimit outputDir algo quality dryRun recursive dpi [] w = Returns () w"
| "processPaths env memoryLimit outputDir algo quality dryRun recursive dpi (path # paths) w =
     (case processPath env path memoryLimit outputDir algo quality dryRun recursive dpi w of
        Diverges \<Rightarrow> Diverges
      | Aborts p w' \<Rightarrow> Aborts p w'
      | Returns u w' \<Rightarrow>
          processPaths env memoryLimit outputDir algo quality dryRun recursive dpi paths w')"

definition Action :: "'img env \<Rightarrow> cliContext \<Rightarrow> world \<Rightarrow> string option outcome" where
  "Action env c w =
     (let memoryLimit = memoryFlag c;
          outputDir = outputFlag c;
          algo = getResizeAlgorithm (algorithmFlag c);
          quality = qualityFlag c;
          dryRun = dryRunFlag c;
          recursive = recursiveFlag c;
          dpi = dpiFlag c
      in if length (positional c) = 0 then Returns (Some ''no input files or directories provided'') w
         else
           (case processPaths env memoryLimit outputDir algo quality dryRun recursive dpi
                   (positional c) w of
              Diverges \<Rightarrow> Diverges
            | Aborts p w' \<Rightarrow> Aborts p w'
            | Returns u w' \<Rightarrow> Returns None w'))"

text \<open>
  \<open>main\<close>, from the raw arguments \<open>os.Args[1:]\<close> and the parsed command line, to the exit
  status of the process: 0 when \<open>main\<close> returns, the argument of \<open>os.Exit\<close> otherwise.
\<close>

definition main :: "'img env \<Rightarrow> string list \<Rightarrow> cliContext \<Rightarrow> world \<Rightarrow> int outcome" where
  "main env osArgs c w =
     (if length osArgs = 0 \<and> startedByExplorer env then
        (let w1 = safePrint (''This application cannot be run by double-clicking it. ''
                    @ ''Please run it from a console or drag your images onto the executable.'') w;
             w2 = safePrint ''Press Enter to exit...'' w1
         in if scanlnFails env then Returns 0 w2 else Returns 1 w2)
      else
        (case Action env c w of
           Diverges \<Rightarrow> Diverges
         | Aborts p w' \<Rightarrow> Aborts p w'
         | Returns (Some err) w' \<Rightarrow> Returns 0 (safePrint (''Error: '' @ err) w')
         | Returns None w' \<Rightarrow> Returns 0 w'))"

section \<open>Start state, default flags and a sample environment\<close>

text \<open>The state at the start of the program, and the default values of the flags.\<close>

definition initialWorld :: world where
  "initialWorld = \<lparr>messageQueue = [], console = [], fsLog = [], barCount = 0\<rparr>"

definition defaultContext :: cliContext where
  "defaultContext =
     \<lparr>memoryFlag = 2 * 1024 * 1024 * 1024, outputFlag = ''.'', algorithmFlag = ''lanczos'',
      qualityFlag = 75, dryRunFlag = False, recursiveFlag = False, dpiFlag = 0,
      positional = []\<rparr>"

text \<open>
  An environment for the concrete runs below: the only file is \<open>photo.png\<close>, a PNG image
  of 6000 x 4000 pixels whose EXIF data give a horizontal resolution of 300 and a vertical
  resolution of 72; every write succeeds. An image is represented by its dimensions.
\<close>

definition sampleEnv :: "(int \<times> int) env" where
  "sampleEnv =
     \<lparr>startedByExplorer = False,
      scanlnFails = False,
      statPath = (\<lambda>p. if p = ''photo.png'' then Inr False
                      else Inl ''no such file or directory''),
      dirEntries = (\<lambda>p. []),
      mkdirAll = (\<lambda>p. None),
      joinPath = (\<lambda>d f. d @ ''/'' @ f),
      openFile = (\<lambda>p. if p = ''photo.png'' then None else Some ''no such file or directory''),
      exifDecode = (\<lambda>p. Exif (Tag (Rat2 300 1)) (Tag (Rat2 72 1))),
      nonFiniteInt = (\<lambda>x. 0),
      decodeImage = (\<lambda>p. Inr ((6000, 4000), ''png'')),
      bounds = (\<lambda>img. img),
      resizeLib = (\<lambda>w h img a. (int w, int h)),
      createFile = (\<lambda>p. None),
      pngEncode = (\<lambda>img. None),
      jpegEncode = (\<lambda>img q. None),
      writeFile = (\<lambda>p. None)\<rparr>"

text \<open>
  The failures of the extraction that \<open>extractDPI\<close> reports, in the words of the
  specification without the mismatch: the file cannot be opened, there is no EXIF data or
  it is corrupt, a resolution tag is missing, or a resolution tag cannot be read as a
  rational.
\<close>

definition extractionFails :: "'img env \<Rightarrow> string \<Rightarrow> bool" where
  "extractionFails env filePath \<longleftrightarrow>
     openFile env filePath \<noteq> None
     \<or> (case exifDecode env filePath of
           ExifError err \<Rightarrow> True
         | Exif (GetError err) y \<Rightarrow> True
         | Exif (Tag x) (GetError err) \<Rightarrow> True
         | Exif (Tag (Rat2Error err)) (Tag y) \<Rightarrow> True
         | Exif (Tag (Rat2 xNum xDen)) (Tag (Rat2Error err)) \<Rightarrow> True
         | Exif (Tag (Rat2 xNum xDen)) (Tag (Rat2 yNum yDen)) \<Rightarrow> False)"

text \<open>
  The same environment with EXIF data that give a resolution of 0/1 in both directions:
  the extraction succeeds with the value 0.
\<close>

definition zeroDpiEnv :: "(int \<times> int) env" where
  "zeroDpiEnv = sampleEnv\<lparr>exifDecode := (\<lambda>p. Exif (Tag (Rat2 0 1)) (Tag (Rat2 0 1)))\<rparr>"


text \<open>
  The first estimate of the solver for a 3:2 image with 4 bytes per pixel and a budget of
  10,000,000 bytes: the rounded quotient \<open>10000000 / 6\<close> and its rounded square root.
\<close>

definition q3x2 :: real where
  "q3x2 = f64_round (5000000 / 3)"

definition e3x2 :: real where
  "e3x2 = f64_round (sqrt q3x2)"

section \<open>Rounding to binary64\<close>

lemma rhe_of_int [simp]: "round_half_even (of_int n) = n"
  by (simp add: round_half_even_def)

lemma rhe_bounds: "\<lfloor>y\<rfloor> \<le> round_half_even y \<and> round_half_even y \<le> \<lfloor>y\<rfloor> + 1"
  by (simp add: round_half_even_def Let_def)

lemma rhe_mono:
  assumes "x \<le> y"
  shows "round_half_even x \<le> round_half_even y"
proof (cases "\<lfloor>x\<rfloor> = \<lfloor>y\<rfloor>")
  case True
  have "x - of_int \<lfloor>x\<rfloor> \<le> y - of_int \<lfloor>y\<rfloor>" using assms True by simp
  then show ?thesis using True
    by (auto simp: round_half_even_def Let_def)
next
  case False
  with assms have "\<lfloor>x\<rfloor> < \<lfloor>y\<rfloor>" by (simp add: floor_mono order.strict_iff_order)
  with rhe_bounds [of x] rhe_bounds [of y] show ?thesis by linarith
qed

lemma f64_ulp_pos: "0 < f64_ulp x"
  by (simp add: f64_ulp_def)

lemma f64_ulp_eq:
  assumes "2 powr (of_int e) \<le> \<bar>x\<bar>" "\<bar>x\<bar> < 2 powr (of_int e + 1)" "- 1022 \<le> e"
  shows "f64_ulp x = 2 powr (of_int e - 52)"
proof -
  have pos: "0 < \<bar>x\<bar>" using assms(1) by (smt (verit) powr_gt_zero)
  have "\<lfloor>log 2 \<bar>x\<bar>\<rfloor> = e"
    using assms(1,2) pos by (simp add: floor_log_eq_powr_iff)
  with assms(3) show ?thesis by (simp add: f64_ulp_def max_def)
qed



lemma f64_round_dyadic:
  assumes m: "\<bar>m\<bar> < 2 ^ 53" and k: "- 1074 \<le> k"
  shows "f64_round (of_int m * 2 powr (of_int k)) = of_int m * 2 powr (of_int k)"
proof (cases "m = 0")
  case True
  then show ?thesis by (simp add: f64_round_def)
next
  case False
  define x where "x = real_of_int m * 2 powr (of_int k)"
  define E where "E = max \<lfloor>log 2 \<bar>x\<bar>\<rfloor> (- 1022)"
  have x0: "x \<noteq> 0" using False by (simp add: x_def)
  have ax: "\<bar>x\<bar> = real_of_int \<bar>m\<bar> * 2 powr (of_int k)" by (simp add: x_def abs_mult)
  have ulp: "f64_ulp x = 2 powr (of_int E - 52)" by (simp add: f64_ulp_def E_def)
  have j0: "0 \<le> k - E + 52"
  proof (cases "\<lfloor>log 2 \<bar>x\<bar>\<rfloor> \<le> - 1022")
    case True
    then have "E = - 1022" by (simp add: E_def max_def)
    with k show ?thesis by simp
  next
    case False
    then have E: "E = \<lfloor>log 2 \<bar>x\<bar>\<rfloor>" by (simp add: E_def max_def)
    have "of_int E \<le> log 2 \<bar>x\<bar>" unfolding E by simp
    then have "2 powr (of_int E) \<le> \<bar>x\<bar>" using x0 by (simp add: le_log_iff)
    also have "\<dots> < 2 ^ 53 * 2 powr (of_int k)"
      unfolding ax using m by (simp add: of_int_less_numeral_power_cancel_iff)
    also have "\<dots> = 2 powr (53 + of_int k)" by (simp add: powr_add powr_realpow)
    finally have "real_of_int E < 53 + of_int k" by simp
    then have "E < 53 + k" by linarith
    then show ?thesis by simp
  qed
  define j where "j = nat (k - E + 52)"
  have jk: "real_of_int k = of_int E - 52 + real j" using j0 by (simp add: j_def)
  have "(2::real) powr (of_int k) = 2 powr (of_int E - 52) * 2 ^ j"
    unfolding jk by (simp add: powr_add powr_realpow)
  then have xe: "x = real_of_int m * 2 ^ j * 2 powr (of_int E - 52)"
    by (simp add: x_def)
  have "x / f64_ulp x = x / 2 powr (of_int E - 52)" by (simp only: ulp)
  also have "\<dots> = real_of_int m * 2 ^ j" by (subst xe) simp
  finally have q: "x / f64_ulp x = of_int (m * 2 ^ j)" by simp
  have "f64_round x = f64_ulp x * of_int (m * 2 ^ j)"
    using x0 by (simp add: f64_round_def q del: of_int_mult of_int_power)
  also have "\<dots> = f64_ulp x * (x / f64_ulp x)" using q by simp
  also have "\<dots> = x" using f64_ulp_pos [of x] by simp
  finally show ?thesis by (simp add: x_def)
qed

lemma f64_round_int: "\<bar>m\<bar> < 2 ^ 53 \<Longrightarrow> f64_round (of_int m) = of_int m"
  using f64_round_dyadic [of m 0] by simp

lemma f64_round_pow2: "n \<le> 1000 \<Longrightarrow> f64_round (2 ^ n) = 2 ^ n"
  using f64_round_dyadic [of 1 "int n"] by (simp add: powr_realpow)

lemma f64_round_div_pow2:
  "\<bar>m\<bar> < 2 ^ 53 \<Longrightarrow> n \<le> 1074 \<Longrightarrow> f64_round (of_int m / 2 ^ n) = of_int m / 2 ^ n"
  using f64_round_dyadic [of m "- int n"] by (simp add: powr_minus powr_realpow field_simps)



lemma f64_round_mono_pos:
  assumes x: "0 < x" and xy: "x \<le> y"
  shows "f64_round x \<le> f64_round y"
proof -
  define Ex where "Ex = max \<lfloor>log 2 \<bar>x\<bar>\<rfloor> (- 1022)"
  define Ey where "Ey = max \<lfloor>log 2 \<bar>y\<bar>\<rfloor> (- 1022)"
  have y: "0 < y" using x xy by simp
  have p53: "(2::real) ^ 53 = 2 powr 53" using powr_realpow [of 2 53] by simp
  have p52: "(2::real) ^ 52 = 2 powr 52" using powr_realpow [of 2 52] by simp
  have ux: "f64_ulp x = 2 powr (of_int Ex - 52)" by (simp add: f64_ulp_def Ex_def)
  have uy: "f64_ulp y = 2 powr (of_int Ey - 52)" by (simp add: f64_ulp_def Ey_def)
  have rx: "f64_round x = f64_ulp x * of_int (round_half_even (x / f64_ulp x))"
    using x by (simp add: f64_round_def)
  have ry: "f64_round y = f64_ulp y * of_int (round_half_even (y / f64_ulp y))"
    using y by (simp add: f64_round_def)
  have "log 2 x \<le> log 2 y" using x xy by simp
  then have "\<lfloor>log 2 \<bar>x\<bar>\<rfloor> \<le> \<lfloor>log 2 \<bar>y\<bar>\<rfloor>" using x y by (simp add: floor_mono)
  then have le: "Ex \<le> Ey" unfolding Ex_def Ey_def by linarith
  show ?thesis
  proof (cases "Ex = Ey")
    case True
    then have u: "f64_ulp y = f64_ulp x" by (simp add: ux uy)
    have "x / f64_ulp x \<le> y / f64_ulp x" using xy f64_ulp_pos [of x] by (simp add: divide_right_mono)
    then have "round_half_even (x / f64_ulp x) \<le> round_half_even (y / f64_ulp x)" by (rule rhe_mono)
    then show ?thesis unfolding rx ry u using f64_ulp_pos [of x]
      by (simp add: mult_left_mono)
  next
    case False
    with le have lt: "Ex + 1 \<le> Ey" by simp
    have "\<lfloor>log 2 x\<rfloor> \<le> Ex" using x by (simp add: Ex_def)
    then have "log 2 x < of_int Ex + 1" by linarith
    then have xlt: "x < 2 powr (of_int Ex + 1)" using x by (simp add: log_less_iff)
    have "x / f64_ulp x < 2 powr (of_int Ex + 1) / 2 powr (of_int Ex - 52)"
      unfolding ux using xlt by (simp add: divide_strict_right_mono)
    also have "\<dots> = 2 powr 53" by (simp flip: powr_diff)
    also have "\<dots> = of_int (2 ^ 53)" by (simp add: p53 [symmetric])
    finally have "round_half_even (x / f64_ulp x) \<le> round_half_even (of_int (2 ^ 53))"
      by (intro rhe_mono) simp
    then have "round_half_even (x / f64_ulp x) \<le> 2 ^ 53" by (simp only: rhe_of_int)
    then have "real_of_int (round_half_even (x / f64_ulp x)) \<le> 2 ^ 53"
      by (metis of_int_le_iff of_int_numeral of_int_power)
    then have "f64_round x \<le> 2 powr (of_int Ex - 52) * 2 ^ 53"
      unfolding rx ux by (simp add: mult_left_mono)
    also have "\<dots> = 2 powr (of_int Ex - 52) * 2 powr 53" by (simp only: p53)
    also have "\<dots> = 2 powr (of_int Ex - 52 + 53)" by (simp only: powr_add)
    also have "\<dots> = 2 powr (of_int Ex + 1)" by (simp add: add.commute)
    finally have a: "f64_round x \<le> 2 powr (of_int Ex + 1)" .
    have "- 1022 < Ey" using lt by (simp add: Ex_def)
    then have Ey: "Ey = \<lfloor>log 2 y\<rfloor>" using y by (simp add: Ey_def max_def split: if_splits)
    have "of_int Ey \<le> log 2 y" unfolding Ey by simp
    then have yge: "2 powr (of_int Ey) \<le> y" using y by (simp add: le_log_iff)
    have "2 powr (of_int Ey) / 2 powr (of_int Ey - 52) \<le> y / f64_ulp y"
      unfolding uy using yge by (simp add: divide_right_mono)
    moreover have "2 powr (of_int Ey) / 2 powr (of_int Ey - 52) = (2::real) powr 52"
      by (simp flip: powr_diff)
    moreover have "(2::real) powr 52 = of_int (2 ^ 52)" by (simp add: p52 [symmetric])
    ultimately have "real_of_int (2 ^ 52) \<le> y / f64_ulp y" by simp
    then have "round_half_even (of_int (2 ^ 52)) \<le> round_half_even (y / f64_ulp y)"
      by (rule rhe_mono)
    then have "2 ^ 52 \<le> round_half_even (y / f64_ulp y)" by (simp only: rhe_of_int)
    then have "(2::real) ^ 52 \<le> real_of_int (round_half_even (y / f64_ulp y))"
      by (metis of_int_le_iff of_int_numeral of_int_power)
    then have "2 powr (of_int Ey - 52) * 2 ^ 52 \<le> f64_round y"
      unfolding ry uy by (simp add: mult_left_mono)
    moreover have "2 powr (of_int Ey - 52) * 2 ^ 52 = (2::real) powr (of_int Ey - 52) * 2 powr 52"
      by (simp only: p52)
    moreover have "(2::real) powr (of_int Ey - 52) * 2 powr 52 = 2 powr (of_int Ey - 52 + 52)"
      by (simp only: powr_add)
    moreover have "(2::real) powr (of_int Ey - 52 + 52) = 2 powr (of_int Ey)" by simp
    ultimately have b: "2 powr (of_int Ey) \<le> f64_round y" by simp
    have "(2::real) powr (of_int Ex + 1) \<le> 2 powr (of_int Ey)"
      using lt by (simp add: powr_mono) 
    with a b show ?thesis by linarith
  qed
qed

lemma f64_round_between:
  assumes "0 < lo" "lo \<le> x" "x \<le> hi" "f64_round lo = lo" "f64_round hi = hi"
  shows "lo \<le> f64_round x \<and> f64_round x \<le> hi"
proof -
  have "f64_round lo \<le> f64_round x" using assms(1,2) by (rule f64_round_mono_pos)
  moreover have "f64_round x \<le> f64_round hi" using assms(1,2,3) by (intro f64_round_mono_pos) simp_all
  ultimately show ?thesis using assms(4,5) by simp
qed


section \<open>Evaluating the operations of the solver\<close>

lemma f64_of_int_exact: "\<bar>m\<bar> < 2 ^ 53 \<Longrightarrow> f64_of_int m = of_int m"
  by (simp add: f64_of_int_def f64_round_int)

lemma f64_result_exact: "f64_round x = x \<Longrightarrow> \<bar>x\<bar> < 2 ^ 1024 \<Longrightarrow> f64_result x = Some x"
  by (simp add: f64_result_def)

lemma f64_result_between:
  assumes "0 < lo" "lo \<le> x" "x \<le> hi" "f64_round lo = lo" "f64_round hi = hi" "hi < 2 ^ 1024"
  shows "f64_result x = Some (f64_round x)"
proof -
  from f64_round_between [OF assms(1-5)] assms(1,6) have "\<bar>f64_round x\<bar> < 2 ^ 1024" by simp
  then show ?thesis by (simp add: f64_result_def)
qed

lemma floor_between: "of_int n \<le> x \<Longrightarrow> x < of_int n + 1 \<Longrightarrow> \<lfloor>x\<rfloor> = n"
  by (simp add: floor_eq_iff)

lemma int_of_f64_floor:
  "- (2 ^ 63) \<le> \<lfloor>x\<rfloor> \<Longrightarrow> \<lfloor>x\<rfloor> < 2 ^ 63 \<Longrightarrow> int_of_f64 (f64_floor x) = Some \<lfloor>x\<rfloor>"
  by (simp add: int_of_f64_def f64_floor_def go_int_def)

lemmas int64_defs = int64_add_def int64_sub_def int64_mul_def int64_quo_def wrap64_def
  go_quo_def go_rem_def

lemmas fmt_defs = Format8bppIndexed_def Format24bppRgb_def Format32bppArgb_def

lemma r6: "f64_round 6 = 6"
  using f64_round_int [of 6] by simp
lemma r32: "f64_round (3 / 2) = 3 / 2"
  using f64_round_div_pow2 [of 3 1] by simp


lemma f64_round_eval:
  assumes "2 powr (of_int e) \<le> \<bar>x\<bar>" "\<bar>x\<bar> < 2 powr (of_int e + 1)" "- 1022 \<le> e"
  shows "f64_round x = 2 powr (of_int e - 52) * of_int (round_half_even (x / 2 powr (of_int e - 52)))"
proof -
  have "x \<noteq> 0" using assms(1) by (smt (verit) powr_gt_zero abs_zero)
  then show ?thesis by (simp add: f64_round_def f64_ulp_eq [OF assms])
qed


lemma round_2_63_minus_1: "f64_round (2 ^ 63 - 1) = 2 ^ 63"
proof -
  have p: "(2::real) powr 62 = 2 ^ 62" "(2::real) powr 63 = 2 ^ 63" "(2::real) powr 10 = 2 ^ 10"
    using powr_realpow [of 2 62] powr_realpow [of 2 63] powr_realpow [of 2 10] by simp_all
  have "f64_round (2 ^ 63 - 1)
          = 2 powr (of_int 62 - 52) * of_int (round_half_even ((2 ^ 63 - 1) / 2 powr (of_int 62 - 52)))"
    by (rule f64_round_eval) (simp_all add: p)
  also have "\<dots> = 2 ^ 10 * of_int (round_half_even ((2 ^ 63 - 1) / 2 ^ 10))" by (simp add: p)
  also have "round_half_even ((2 ^ 63 - 1) / 2 ^ 10) = 2 ^ 53"
    by (simp add: round_half_even_def Let_def)
  finally show ?thesis by simp
qed



lemma r2_60: "f64_round (2 ^ 60) = 2 ^ 60"
  using f64_round_pow2 [of 60] by simp


section \<open>Facts about the state and the DPI resolver\<close>

lemma safePrint_fields [simp]:
  "messageQueue (safePrint m w) = messageQueue w @ [m]"
  "console (safePrint m w) = console w"
  "fsLog (safePrint m w) = fsLog w"
  "barCount (safePrint m w) = barCount w"
  by (simp_all add: safePrint_def)

lemma fsCall_fields [simp]:
  "messageQueue (fsCall e w) = messageQueue w"
  "console (fsCall e w) = console w"
  "fsLog (fsCall e w) = fsLog w @ [e]"
  "barCount (fsCall e w) = barCount w"
  by (simp_all add: fsCall_def)

lemma println_fold:
  "foldl (\<lambda>w' message. println message w') w ms = w\<lparr>console := console w @ ms\<rparr>"
  by (induction ms arbitrary: w) (simp_all add: println_def)

lemma flushMessages_eq:
  "flushMessages w = w\<lparr>console := console w @ messageQueue w, messageQueue := []\<rparr>"
  by (simp add: flushMessages_def println_fold)

lemma safePrint_fold:
  "foldl (\<lambda>w' message. safePrint message w') w ms = w\<lparr>messageQueue := messageQueue w @ ms\<rparr>"
  by (induction ms arbitrary: w) (simp_all add: safePrint_def)

lemma extractDPI_fails:
  assumes "extractionFails env filePath"
  shows "\<exists>err. extractDPI env filePath w = (Inl err, fsCall (FsOpen filePath) w)"
  using assms
  by (auto simp: extractionFails_def extractDPI_def Let_def
           split: option.splits exif_result.splits tag_result.splits rat2_result.splits)

lemma extractDPI_succeeds:
  assumes "openFile env filePath = None"
    and "exifDecode env filePath = Exif (Tag (Rat2 xNum xDen)) (Tag (Rat2 yNum yDen))"
  shows "extractDPI env filePath w
           = (Inr (f64_to_int (nonFiniteInt env) (f64_quotient xNum xDen)),
              fsCall (FsOpen filePath) w)"
  using assms by (simp add: extractDPI_def Let_def)

lemma not_fails_cases:
  assumes "\<not> extractionFails env filePath"
  shows "openFile env filePath = None
         \<and> (\<exists>xNum xDen yNum yDen.
               exifDecode env filePath = Exif (Tag (Rat2 xNum xDen)) (Tag (Rat2 yNum yDen)))"
  using assms
  by (auto simp: extractionFails_def
           split: exif_result.splits tag_result.splits rat2_result.splits)

lemma sample_exif:
  "openFile sampleEnv ''photo.png'' = None"
  "exifDecode sampleEnv ''photo.png'' = Exif (Tag (Rat2 300 1)) (Tag (Rat2 72 1))"
  "nonFiniteInt sampleEnv = (\<lambda>x. 0)"
  by (simp_all add: sampleEnv_def)

lemma sample_quotients:
  "f64_quotient 300 1 \<noteq> f64_quotient 72 1"
  "f64_to_int (\<lambda>x. 0) (f64_quotient 300 1) = 300"
  by (simp_all add: f64_quotient_def f64_to_int_def go_int_def)

lemma sample_missing: "extractionFails sampleEnv ''missing.jpg''"
  by (simp add: extractionFails_def sampleEnv_def)

lemma sample_present: "\<not> extractionFails sampleEnv ''photo.png''"
  by (simp add: extractionFails_def sampleEnv_def)

section \<open>Concrete runs of the solver\<close>

text \<open>
  An inexact intermediate value is enclosed between two representable numbers; rounding
  is monotone, so the rounded value lies between them as well, which fixes its floor.
\<close>

lemma q3x2_bounds: "1666666 \<le> q3x2 \<and> q3x2 \<le> 1666667"
  unfolding q3x2_def
  using f64_round_int [of 1666666] f64_round_int [of 1666667]
  by (intro f64_round_between) simp_all

lemma e3x2_bounds: "1290 \<le> e3x2 \<and> e3x2 \<le> 330495 / 256"
proof -
  have lo: "1290 \<le> sqrt q3x2" using q3x2_bounds by (intro real_le_rsqrt) simp
  have hi: "sqrt q3x2 \<le> 330495 / 256" using q3x2_bounds by (intro real_le_lsqrt) (simp_all add: power2_eq_square)
  have exlo: "f64_round 1290 = 1290" using f64_round_int [of 1290] by simp
  have exhi: "f64_round (330495 / 256) = 330495 / 256" using f64_round_div_pow2 [of 330495 8] by simp
  show ?thesis unfolding e3x2_def using lo hi exlo exhi by (intro f64_round_between) simp_all
qed

lemma e3x2_floor: "\<lfloor>e3x2\<rfloor> = 1290"
  using e3x2_bounds by (intro floor_between) simp_all

lemma start_3x2:
  "calculateMaxResolution 6000 4000 Format32bppArgb alignment 10000000 dpi
     = solverLoop (3 / 2) 4 alignment 10000000 dpi e3x2"
proof -
  have a: "f64_div (f64_of_int 6000) (f64_of_int 4000) = Some (3 / 2)"
    by (simp add: f64_of_int_exact f64_div_def f64_result_exact r32)
  have b: "f64_mul (f64_of_int 4) (3 / 2) = Some 6"
    by (simp add: f64_of_int_exact f64_mul_def f64_result_exact r6)
  have c: "f64_div (f64_of_int 10000000) 6 = Some q3x2"
  proof -
    have "f64_result (5000000 / 3) = Some (f64_round (5000000 / 3))"
      using f64_round_int [of 1666666] f64_round_int [of 1666667]
      by (intro f64_result_between [of 1666666 _ 1666667]) simp_all
    then show ?thesis by (simp add: f64_of_int_exact f64_div_def q3x2_def)
  qed
  have d: "f64_sqrt q3x2 = Some e3x2"
    using q3x2_bounds by (simp add: f64_sqrt_def e3x2_def)
  show ?thesis
    by (simp add: calculateMaxResolution_def getBytesPerPixel_def fmt_defs a b c d)
qed

lemma candidate_3x2:
  "int_of_f64 (f64_floor e3x2) = Some 1290"
  "f64_mul (3 / 2) (f64_of_int 1290) = Some 1935"
  "int_of_f64 (f64_floor 1935) = Some 1935"
proof -
  show "int_of_f64 (f64_floor e3x2) = Some 1290"
    using int_of_f64_floor [of e3x2] by (simp add: e3x2_floor)
  have "f64_round 1935 = 1935" using f64_round_int [of 1935] by simp
  then show "f64_mul (3 / 2) (f64_of_int 1290) = Some 1935"
    by (simp add: f64_of_int_exact f64_mul_def f64_result_exact)
  show "int_of_f64 (f64_floor 1935) = Some 1935"
    using int_of_f64_floor [of 1935] by simp
qed

lemma solve_6000x4000_dpi72:
  "calculateMaxResolution 6000 4000 Format32bppArgb 4 10000000 72 = Some (Inr (1872, 1248))"
proof -
  have q: "f64_div (f64_of_int 1872) (3 / 2) = Some 1248"
    using f64_round_int [of 1248]
    by (simp add: f64_of_int_exact f64_div_def f64_result_exact)
  have i: "int_of_f64 1248 = Some 1248" by (simp add: int_of_f64_def go_int_def)
  have "solverStep (3 / 2) 4 4 10000000 72 e3x2 = Return (Inr (1872, 1248))"
    by (simp add: solverStep_def candidate_3x2 int64_defs Let_def q i)
  then show ?thesis
    unfolding start_3x2 by (subst solverLoop.simps) simp
qed

text \<open>
  An alignment of \<open>2^62\<close>: the stride of the candidate 1935 x 1290 is \<open>2^62\<close>, and its
  product with the height wraps around to \<open>-2^63\<close>.
\<close>

lemma huge_alignment_total:
  "int64_mul (int64_mul (int64_quo (int64_sub (int64_add (int64_mul 1935 4) (2 ^ 62)) 1) (2 ^ 62))
       (2 ^ 62)) 1290 = - (2 ^ 63)"
  by (simp add: int64_defs)

lemma solve_6000x4000_huge_alignment:
  "calculateMaxResolution 6000 4000 Format32bppArgb (2 ^ 62) 10000000 72
     = Some (Inr (1872, 1248))"
proof -
  have q: "f64_div (f64_of_int 1872) (3 / 2) = Some 1248"
    using f64_round_int [of 1248]
    by (simp add: f64_of_int_exact f64_div_def f64_result_exact)
  have i: "int_of_f64 1248 = Some 1248" by (simp add: int_of_f64_def go_int_def)
  have "solverStep (3 / 2) 4 (2 ^ 62) 10000000 72 e3x2 = Return (Inr (1872, 1248))"
    by (simp add: solverStep_def candidate_3x2 int64_defs Let_def q i)
  then show ?thesis
    unfolding start_3x2 by (subst solverLoop.simps) simp
qed

lemma solve_2x1_max_budget:
  "calculateMaxResolution 2 1 Format32bppArgb 4 (2 ^ 63 - 1) 1 = Some (Inr (2 ^ 31, 2 ^ 30))"
proof -
  have m: "f64_of_int (2 ^ 63 - 1) = 2 ^ 63" using round_2_63_minus_1 by (simp add: f64_of_int_def)
  have a: "f64_div (f64_of_int 2) (f64_of_int 1) = Some 2"
    using f64_round_int [of 2] by (simp add: f64_of_int_exact f64_div_def f64_result_exact)
  have b: "f64_mul (f64_of_int 4) 2 = Some 8"
    using f64_round_int [of 8] by (simp add: f64_of_int_exact f64_mul_def f64_result_exact)
  have c: "f64_div (2 ^ 63) 8 = Some (2 ^ 60)"
    using r2_60 by (simp add: f64_div_def f64_result_exact)
  have s: "sqrt (2 ^ 60) = 2 ^ 30"
    using real_sqrt_abs [of "2 ^ 30"] by simp
  have d: "f64_sqrt (2 ^ 60) = Some (2 ^ 30)"
    using f64_round_pow2 [of 30] s by (simp add: f64_sqrt_def)
  have h: "int_of_f64 (f64_floor (2 ^ 30)) = Some (2 ^ 30)"
    using int_of_f64_floor [of "2 ^ 30"] by simp
  have w: "f64_mul 2 (f64_of_int (2 ^ 30)) = Some (2 ^ 31)"
    using f64_round_pow2 [of 31] by (simp add: f64_of_int_exact f64_mul_def f64_result_exact)
  have wi: "int_of_f64 (f64_floor (2 ^ 31)) = Some (2 ^ 31)"
    using int_of_f64_floor [of "2 ^ 31"] by simp
  have q: "f64_div (f64_of_int (2 ^ 31)) 2 = Some (2 ^ 30)"
    using f64_round_pow2 [of 30] by (simp add: f64_of_int_exact f64_div_def f64_result_exact)
  have i: "int_of_f64 (2 ^ 30) = Some (2 ^ 30)" by (simp add: int_of_f64_def go_int_def)
  have step: "solverStep 2 4 4 (2 ^ 63 - 1) 1 (2 ^ 30) = Return (Inr (2 ^ 31, 2 ^ 30))"
    using h w wi q i by (simp add: solverStep_def int64_defs Let_def)
  have st: "calculateMaxResolution 2 1 Format32bppArgb 4 (2 ^ 63 - 1) 1
                   = solverLoop 2 4 4 (2 ^ 63 - 1) 1 (2 ^ 30)"
    using m a b c d by (simp add: calculateMaxResolution_def getBytesPerPixel_def fmt_defs)
  from step show ?thesis unfolding st by (subst solverLoop.simps) simp
qed


lemma solve_6000x4000_dpi0:
  "calculateMaxResolution 6000 4000 Format32bppArgb 4 10000000 0 = Some (Inl DivideByZero)"
proof -
  have "solverStep (3 / 2) 4 4 10000000 0 e3x2 = Return (Inl DivideByZero)"
    by (simp add: solverStep_def candidate_3x2 int64_defs Let_def)
  then show ?thesis
    unfolding start_3x2 by (subst solverLoop.simps) simp
qed

lemma solve_6000x4000_tiny_budget:
  "calculateMaxResolution 6000 4000 Format32bppArgb 4 10000 72 = Some (Inr (0, 0))"
proof -
  define q0 where "q0 = f64_round (5000 / 3)"
  define e where "e = f64_round (sqrt q0)"
  have a: "f64_div (f64_of_int 6000) (f64_of_int 4000) = Some (3 / 2)"
    by (simp add: f64_of_int_exact f64_div_def f64_result_exact r32)
  have b: "f64_mul (f64_of_int 4) (3 / 2) = Some 6"
    by (simp add: f64_of_int_exact f64_mul_def f64_result_exact r6)
  have qb: "1666 \<le> q0 \<and> q0 \<le> 1667"
    unfolding q0_def using f64_round_int [of 1666] f64_round_int [of 1667]
    by (intro f64_round_between) simp_all
  have c: "f64_div (f64_of_int 10000) 6 = Some q0"
  proof -
    have "f64_result (5000 / 3) = Some (f64_round (5000 / 3))"
      using f64_round_int [of 1666] f64_round_int [of 1667]
      by (intro f64_result_between [of 1666 _ 1667]) simp_all
    then show ?thesis by (simp add: f64_of_int_exact f64_div_def q0_def)
  qed
  have d: "f64_sqrt q0 = Some e" using qb by (simp add: f64_sqrt_def e_def)
  have lo: "40 \<le> sqrt q0" using qb by (intro real_le_rsqrt) simp
  have hi: "sqrt q0 \<le> 655 / 16" using qb by (intro real_le_lsqrt) (simp_all add: power2_eq_square)
  have exlo: "f64_round 40 = 40" using f64_round_int [of 40] by simp
  have exhi: "f64_round (655 / 16) = 655 / 16" using f64_round_div_pow2 [of 655 4] by simp
  have eb: "40 \<le> e \<and> e \<le> 655 / 16"
    unfolding e_def using lo hi exlo exhi by (intro f64_round_between) simp_all
  then have fl: "\<lfloor>e\<rfloor> = 40" by (intro floor_between) simp_all
  have h: "int_of_f64 (f64_floor e) = Some 40"
    using int_of_f64_floor [of e] by (simp add: fl)
  have w: "f64_mul (3 / 2) (f64_of_int 40) = Some 60"
    using f64_round_int [of 60] by (simp add: f64_of_int_exact f64_mul_def f64_result_exact)
  have wi: "int_of_f64 (f64_floor 60) = Some 60"
    using int_of_f64_floor [of 60] by simp
  have q: "f64_div (f64_of_int 0) (3 / 2) = Some 0"
    by (simp add: f64_of_int_def f64_round_def f64_div_def f64_result_def)
  have i: "int_of_f64 0 = Some 0" by (simp add: int_of_f64_def go_int_def)
  have step: "solverStep (3 / 2) 4 4 10000 72 e = Return (Inr (0, 0))"
    by (simp add: solverStep_def h w wi int64_defs Let_def q i)
  have st: "calculateMaxResolution 6000 4000 Format32bppArgb 4 10000 72
                   = solverLoop (3 / 2) 4 4 10000 72 e"
    by (simp add: calculateMaxResolution_def getBytesPerPixel_def fmt_defs a b c d)
  from step show ?thesis unfolding st by (subst solverLoop.simps) simp
qed




lemma photo_pixel_format: "getPixelFormat (pathExt ''photo.png'') = Inr Format32bppArgb"
  by (simp add: getPixelFormat_def pathExt_def toLower_def toLowerChar_def)

lemma photo_output_path:
  "outputPathOf zeroDpiEnv ''out'' ''photo.png'' = ''out/photo-resized.png''"
  by (simp add: outputPathOf_def zeroDpiEnv_def sampleEnv_def pathExt_def pathBase_def
        trimSuffix_def)

section \<open>Claims about the resolution solver\<close>

text \<open>
  C1 (budget respected). The claim: for every call of the solver with positive original
  width and height, positive alignment, positive budget and \<open>dpi \<ge> 1\<close>, the returned pair
  \<open>(width, height)\<close> satisfies
  \<open>ceil(width * bytesPerPixel / alignment) * alignment * height \<le> budget\<close>. The solver
  tests \<open>int64(stride) * int64(height) \<le> memoryLimit\<close> in 64-bit arithmetic, and the
  product can wrap around. For a 6000 x 4000 ARGB image, alignment \<open>2^62\<close>, a budget of
  10,000,000 bytes and a DPI of 72 the solver returns 1872 x 1248, whose aligned size
  \<open>2^62 * 1248\<close> is above the budget. With alignment 4, as the program calls the solver:
  for a 2 x 1 ARGB image, a budget of \<open>2^63 - 1\<close> bytes and a DPI of 1 it returns
  \<open>2^31\<close> x \<open>2^30\<close>, whose aligned size is \<open>2^63\<close>.
\<close>

theorem budget_exceeded_by_wraparound:
  "validInput 6000 4000 Format32bppArgb (2 ^ 62) 10000000 \<and> (1::int) \<le> 72
   \<and> calculateMaxResolution 6000 4000 Format32bppArgb (2 ^ 62) 10000000 72
       = Some (Inr (1872, 1248))
   \<and> 10000000 < \<lceil>real_of_int (1872 * 4) / real_of_int (2 ^ 62)\<rceil> * 2 ^ 62 * 1248
   \<and> validInput 2 1 Format32bppArgb 4 (2 ^ 63 - 1) \<and> (1::int) \<le> 1
   \<and> calculateMaxResolution 2 1 Format32bppArgb 4 (2 ^ 63 - 1) 1
       = Some (Inr (2 ^ 31, 2 ^ 30))
   \<and> 2 ^ 63 - 1 < \<lceil>real_of_int (2 ^ 31 * 4) / real_of_int 4\<rceil> * 4 * 2 ^ 30"
proof -
  have a: "\<lceil>real_of_int (1872 * 4) / real_of_int (2 ^ 62)\<rceil> = 1"
    by (simp add: ceiling_eq_iff)
  have b: "\<lceil>real_of_int (2 ^ 31 * 4) / real_of_int 4\<rceil> = 2 ^ 31"
    by simp
  have v: "validInput 6000 4000 Format32bppArgb (2 ^ 62) 10000000"
    "validInput 2 1 Format32bppArgb 4 (2 ^ 63 - 1)"
    by (simp_all add: validInput_def)
  show ?thesis
    unfolding a b using v solve_6000x4000_huge_alignment solve_2x1_max_budget by simp
qed




text \<open>
  C3 (DPI 0). The claim: with \<open>dpi = 0\<close> and valid remaining arguments the solver still
  returns a pair within the budget and meets no error or undefined arithmetic. The solver
  computes \<open>width % dpi\<close> for every accepted candidate: on the scenario of the
  specification (6000 x 4000, ARGB, alignment 4, budget 10,000,000, \<open>dpi = 0\<close>) the first
  candidate is accepted and the run stops with an integer division by zero. The value 0
  reaches the solver from the command line: with the override unset, \<open>processFile\<close> passes
  on the DPI that \<open>extractDPI\<close> returns, and for a file whose EXIF data give a resolution
  of 0/1 that value is 0.
\<close>

theorem dpi_zero_divides_by_zero:
  "validInput 6000 4000 Format32bppArgb 4 10000000
   \<and> calculateMaxResolution 6000 4000 Format32bppArgb 4 10000000 0 = Some (Inl DivideByZero)
   \<and> fst (resolveDPI zeroDpiEnv 0 ''photo.png'' initialWorld) = 0
   \<and> processFile zeroDpiEnv ''photo.png'' 10000000 ''out'' Lanczos3 75 False 0 initialWorld
       = Aborts DivideByZero
           \<lparr>messageQueue = [''Extracted DPI for photo.png: 0'', ''Processing photo.png''],
            console = [],
            fsLog = [FsMkdirAll ''out'', FsStat ''out/photo-resized.png'', FsOpen ''photo.png'',
                     FsOpen ''photo.png''],
            barCount = 1\<rparr>"
proof -
  have v: "validInput 6000 4000 Format32bppArgb 4 10000000"
    by (simp add: validInput_def)
  have o: "openFile zeroDpiEnv ''photo.png'' = None"
    and e: "exifDecode zeroDpiEnv ''photo.png'' = Exif (Tag (Rat2 0 1)) (Tag (Rat2 0 1))"
    by (simp_all add: zeroDpiEnv_def sampleEnv_def)
  have z: "f64_to_int (nonFiniteInt zeroDpiEnv) (f64_quotient 0 1) = 0"
    by (simp add: f64_to_int_def f64_quotient_def go_int_def)
  have r: "resolveDPI zeroDpiEnv 0 ''photo.png'' w
             = (0, safePrint ''Extracted DPI for photo.png: 0'' (fsCall (FsOpen ''photo.png'') w))"
    for w
    by (simp add: resolveDPI_def extractDPI_succeeds [OF o e] z showInt_def)
  have rs: "resizeImage zeroDpiEnv ''photo.png'' outputPath dryRun 10000000 algo quality 0 w
              = Aborts DivideByZero (fsCall (FsOpen ''photo.png'') w)"
    for outputPath dryRun algo quality w
  proof -
    have d: "decodeImage zeroDpiEnv ''photo.png'' = Inr ((6000, 4000), ''png'')"
      and b: "bounds zeroDpiEnv (6000, 4000) = (6000, 4000)"
      by (simp_all add: zeroDpiEnv_def sampleEnv_def)
    show ?thesis
      by (simp add: resizeImage_def Let_def o d b photo_pixel_format solve_6000x4000_dpi0)
  qed
  have p: "processFile zeroDpiEnv ''photo.png'' 10000000 ''out'' Lanczos3 75 False 0 initialWorld
       = Aborts DivideByZero
           \<lparr>messageQueue = [''Extracted DPI for photo.png: 0'', ''Processing photo.png''],
            console = [],
            fsLog = [FsMkdirAll ''out'', FsStat ''out/photo-resized.png'', FsOpen ''photo.png'',
                     FsOpen ''photo.png''],
            barCount = 1\<rparr>"
  proof -
    have m: "mkdirAll zeroDpiEnv ''out'' = None"
      and st: "statPath zeroDpiEnv ''out/photo-resized.png'' = Inl ''no such file or directory''"
      by (simp_all add: zeroDpiEnv_def sampleEnv_def)
    show ?thesis
      by (simp add: processFile_def Let_def m photo_output_path st r rs)
         (simp add: initialWorld_def tick_def safePrint_def fsCall_def)
  qed
  from v solve_6000x4000_dpi0 r [of initialWorld] p show ?thesis by simp
qed


text \<open>
  C5 (aspect ratio). The claim: for every output \<open>(width, height)\<close> of the solver on a
  valid input with \<open>dpi \<ge> 1\<close>, the ratio \<open>width / height\<close> differs from
  \<open>originalWidth / originalHeight\<close> by at most a small tolerance. For a 6000 x 4000 ARGB
  image, alignment 4, a budget of 10,000 bytes and a DPI of 72 the accepted candidate is
  60 x 40, the snap gives the width \<open>60 - 60 % 72 = 0\<close>, and the solver returns 0 x 0, a
  pair that has no ratio.
\<close>

theorem zero_size_output:
  "validInput 6000 4000 Format32bppArgb 4 10000 \<and> (1::int) \<le> 72
   \<and> calculateMaxResolution 6000 4000 Format32bppArgb 4 10000 72 = Some (Inr (0, 0))"
proof -
  have "validInput 6000 4000 Format32bppArgb 4 10000"
    by (simp add: validInput_def)
  with solve_6000x4000_tiny_budget show ?thesis by simp
qed

section \<open>Claims about the DPI resolver\<close>

text \<open>
  C6 (DPI resolver), as the claim states it: with the override unset (0), a mismatch between
  the horizontal and the vertical resolution is an extraction failure and gives the default
  72. For \<open>photo.png\<close>, whose EXIF data give 300 and 72, the resolver answers 300.
\<close>

theorem dpi_mismatch_counterexample:
  "openFile sampleEnv ''photo.png'' = None
   \<and> exifDecode sampleEnv ''photo.png'' = Exif (Tag (Rat2 300 1)) (Tag (Rat2 72 1))
   \<and> f64_quotient 300 1 \<noteq> f64_quotient 72 1
   \<and> fst (resolveDPI sampleEnv 0 ''photo.png'' initialWorld) = 300
   \<and> (300::int) \<noteq> 72"
  by (simp add: resolveDPI_def extractDPI_succeeds [OF sample_exif(1,2)] sample_exif
        sample_quotients)

text \<open>
  C6, amended: a nonzero override is used as it is and the file is not opened (the state is
  unchanged); with the override unset (0), every extraction failure (the file cannot be
  opened, EXIF data are absent or corrupt, a resolution tag is missing or unreadable) gives
  72; otherwise the horizontal resolution converted to an integer is used, whether or not
  the vertical resolution agrees with it. \<open>extractDPI\<close> reports every failure as an error
  value.
\<close>

theorem resolveDPI_cases:
  "(overrideDPI \<noteq> 0 \<longrightarrow> resolveDPI env overrideDPI filePath w = (overrideDPI, w))
   \<and> (overrideDPI = 0 \<and> extractionFails env filePath \<longrightarrow>
        fst (resolveDPI env overrideDPI filePath w) = 72)
   \<and> (overrideDPI = 0 \<and> \<not> extractionFails env filePath \<longrightarrow>
        (\<exists>xNum xDen yNum yDen.
           exifDecode env filePath = Exif (Tag (Rat2 xNum xDen)) (Tag (Rat2 yNum yDen))
           \<and> fst (resolveDPI env overrideDPI filePath w)
               = f64_to_int (nonFiniteInt env) (f64_quotient xNum xDen)))"
proof (intro conjI impI)
  assume "overrideDPI \<noteq> 0"
  then show "resolveDPI env overrideDPI filePath w = (overrideDPI, w)"
    by (simp add: resolveDPI_def)
next
  assume a: "overrideDPI = 0 \<and> extractionFails env filePath"
  then obtain err where "extractDPI env filePath w = (Inl err, fsCall (FsOpen filePath) w)"
    using extractDPI_fails by blast
  with a show "fst (resolveDPI env overrideDPI filePath w) = 72"
    by (simp add: resolveDPI_def)
next
  assume a: "overrideDPI = 0 \<and> \<not> extractionFails env filePath"
  with not_fails_cases obtain xNum xDen yNum yDen where
    o: "openFile env filePath = None"
    and e: "exifDecode env filePath = Exif (Tag (Rat2 xNum xDen)) (Tag (Rat2 yNum yDen))"
    by blast
  from a have "fst (resolveDPI env overrideDPI filePath w)
                 = f64_to_int (nonFiniteInt env) (f64_quotient xNum xDen)"
    by (simp add: resolveDPI_def extractDPI_succeeds [OF o e])
  with e show "\<exists>xNum xDen yNum yDen.
           exifDecode env filePath = Exif (Tag (Rat2 xNum xDen)) (Tag (Rat2 yNum yDen))
           \<and> fst (resolveDPI env overrideDPI filePath w)
               = f64_to_int (nonFiniteInt env) (f64_quotient xNum xDen)" by blast
qed

theorem resolveDPI_cases_witness:
  "resolveDPI sampleEnv 96 ''photo.png'' initialWorld = (96, initialWorld)
   \<and> extractionFails sampleEnv ''missing.jpg''
   \<and> fst (resolveDPI sampleEnv 0 ''missing.jpg'' initialWorld) = 72
   \<and> \<not> extractionFails sampleEnv ''photo.png''
   \<and> fst (resolveDPI sampleEnv 0 ''photo.png'' initialWorld) = 300"
proof -
  have n: "(96::int) \<noteq> 0" by simp
  from resolveDPI_cases [of 96 sampleEnv "''photo.png''" initialWorld] n
  have a: "resolveDPI sampleEnv 96 ''photo.png'' initialWorld = (96, initialWorld)" by blast
  from resolveDPI_cases [of 0 sampleEnv "''missing.jpg''" initialWorld] sample_missing
  have b: "fst (resolveDPI sampleEnv 0 ''missing.jpg'' initialWorld) = 72" by blast
  from resolveDPI_cases [of 0 sampleEnv "''photo.png''" initialWorld] sample_present
  obtain xNum xDen yNum yDen where
    e: "exifDecode sampleEnv ''photo.png'' = Exif (Tag (Rat2 xNum xDen)) (Tag (Rat2 yNum yDen))"
    and r: "fst (resolveDPI sampleEnv 0 ''photo.png'' initialWorld)
              = f64_to_int (nonFiniteInt sampleEnv) (f64_quotient xNum xDen)" by blast
  from e have "xNum = 300" "xDen = 1" by (simp_all add: sample_exif)
  with r have c: "fst (resolveDPI sampleEnv 0 ''photo.png'' initialWorld) = 300"
    by (simp add: sample_exif sample_quotients)
  from a b c sample_missing sample_present show ?thesis by blast
qed



section \<open>Claims about the command line and the pipeline\<close>

text \<open>
  C7 (zero positional arguments), as the claim states it: a message is shown and the exit
  status is nonzero. Started from a console with the default flags and no argument, \<open>main\<close>
  returns with exit status 0 and nothing is printed.
\<close>

theorem exit_status_counterexample:
  "positional defaultContext = [] \<and> \<not> startedByExplorer sampleEnv
   \<and> main sampleEnv [] defaultContext initialWorld
       = Returns 0 (initialWorld\<lparr>messageQueue :=
                      [''Error: no input files or directories provided'']\<rparr>)
   \<and> console (initialWorld\<lparr>messageQueue :=
                      [''Error: no input files or directories provided'']\<rparr>) = []"
  by (simp add: main_def Action_def Let_def defaultContext_def sampleEnv_def initialWorld_def
        safePrint_def)

text \<open>
  C7, amended: with zero positional arguments the action returns the error
  \<open>no input files or directories provided\<close> before any path is processed, \<open>main\<close> makes
  no call to the file system and returns; the exit status is 0, except that it is 1 when
  the program was started from Explorer without any argument and the line read by
  \<open>fmt.Scanln\<close> gave no error.
\<close>

theorem no_arguments_returns_error:
  assumes "positional c = []"
  shows "Action env c w = Returns (Some ''no input files or directories provided'') w
         \<and> (\<exists>w'. main env osArgs c w
                    = Returns (if length osArgs = 0 \<and> startedByExplorer env
                                  \<and> \<not> scanlnFails env then 1 else 0) w'
                \<and> fsLog w' = fsLog w \<and> console w' = console w \<and> barCount w' = barCount w)"
  using assms by (simp add: Action_def main_def Let_def)

theorem no_arguments_returns_error_witness:
  "positional defaultContext = []
   \<and> Action sampleEnv defaultContext initialWorld
       = Returns (Some ''no input files or directories provided'') initialWorld
   \<and> (\<exists>w'. main sampleEnv [''--dry-run''] defaultContext initialWorld = Returns 0 w'
          \<and> fsLog w' = [] \<and> console w' = [])"
proof -
  have p: "positional defaultContext = []" by (simp add: defaultContext_def)
  from no_arguments_returns_error [OF p, of sampleEnv initialWorld "[''--dry-run'']"]
  obtain w' where a: "Action sampleEnv defaultContext initialWorld
       = Returns (Some ''no input files or directories provided'') initialWorld"
    and m: "main sampleEnv [''--dry-run''] defaultContext initialWorld
              = Returns (if length [''--dry-run''] = 0 \<and> startedByExplorer sampleEnv
                            \<and> \<not> scanlnFails sampleEnv then 1 else 0) w'"
    and f: "fsLog w' = fsLog initialWorld" "console w' = console initialWorld" by blast
  from m have m0: "main sampleEnv [''--dry-run''] defaultContext initialWorld = Returns 0 w'"
    by simp
  from f have "fsLog w' = []" "console w' = []" by (simp_all add: initialWorld_def)
  with p a m0 show ?thesis by blast
qed

text \<open>
  C8 (dry run). The claim: with the dry-run flag set no output file is created or written.
  \<open>resizeImage\<close> of the variant with the diagnostic sink does not read \<open>dryRun\<close>: on
  \<open>photo.png\<close> with a budget of 10,000,000 bytes and \<open>dryRun = True\<close> it creates and writes
  the output file.
\<close>

theorem dry_run_still_writes:
  "resizeImage sampleEnv ''photo.png'' ''out/photo-resized.png'' True 10000000 Lanczos3 75 72
       initialWorld
     = Returns None
         \<lparr>messageQueue = [''Resized photo.png to 1872x1248 with a DPI of 22''],
          console = [],
          fsLog = [FsOpen ''photo.png'', FsCreate ''out/photo-resized.png'',
                   FsWrite ''out/photo-resized.png''],
          barCount = 0\<rparr>"
proof -
  have pf: "getPixelFormat (pathExt ''photo.png'') = Inr Format32bppArgb"
    by (simp add: getPixelFormat_def pathExt_def toLower_def toLowerChar_def)
  have nd: "go_int (2808 / 125) = 22"
    by (simp add: go_int_def)
  show ?thesis
    by (simp add: resizeImage_def Let_def pf sampleEnv_def solve_6000x4000_dpi72 nd saveImage_def
          initialWorld_def safePrint_def fsCall_def showInt_def)
qed

lemma resizeImage_ignores_dryRun:
  "resizeImage env filePath outputPath True memoryLimit algo quality dpi w
     = resizeImage env filePath outputPath False memoryLimit algo quality dpi w"
  by (simp add: resizeImage_def)

text \<open>
  The sibling variant does what the claim says: with \<open>dryRun\<close> set it makes no call beyond
  opening the input, and without it the same lines are printed and the only further calls
  create and write the output file.
\<close>

lemma saveImage_direct_log:
  "saveImage_direct env img outputPath format quality dpi w = (r, w')
   \<Longrightarrow> console w' = console w \<and> messageQueue w' = messageQueue w
       \<and> (\<exists>extra. fsLog w' = fsLog w @ extra
                   \<and> set extra \<subseteq> {FsCreate outputPath, FsWrite outputPath})"
  by (auto simp: saveImage_direct_def Let_def split: option.splits if_splits)

lemma resizeImage_direct_dry_run:
  assumes "resizeImage_direct env filePath outputPath True memoryLimit algo quality dpi w
             = Returns r wd"
  shows "fsLog wd = fsLog w @ [FsOpen filePath]
         \<and> (\<exists>r' wn. resizeImage_direct env filePath outputPath False memoryLimit algo quality
                       dpi w = Returns r' wn
              \<and> console wn = console wd \<and> messageQueue wn = messageQueue wd
              \<and> (\<exists>extra. fsLog wn = fsLog wd @ extra
                     \<and> set extra \<subseteq> {FsCreate outputPath, FsWrite outputPath}))"
proof (cases "openFile env filePath")
  case (Some err)
  with assms show ?thesis by (auto simp: resizeImage_direct_def Let_def)
next
  case None
  note o = this
  show ?thesis
  proof (cases "decodeImage env filePath")
    case (Inl err)
    with o assms show ?thesis by (auto simp: resizeImage_direct_def Let_def)
  next
    case (Inr p)
    obtain img format where p: "p = (img, format)" by (cases p)
    show ?thesis
    proof (cases "getPixelFormat (pathExt filePath)")
      case (Inl a)
      with o Inr p assms show ?thesis by (simp add: resizeImage_direct_def Let_def)
    next
      case pf: (Inr pixelFormat)
      show ?thesis
      proof (cases "calculateMaxResolution (fst (bounds env img)) (snd (bounds env img))
                      pixelFormat 4 memoryLimit dpi")
        case None
        with o Inr p pf assms show ?thesis by (simp add: resizeImage_direct_def Let_def)
      next
        case (Some res)
        show ?thesis
        proof (cases res)
          case (Inl a)
          with o Inr p pf Some assms show ?thesis by (simp add: resizeImage_direct_def Let_def)
        next
          case dims: (Inr d)
          obtain nw nh where d: "d = (nw, nh)" by (cases d)
          show ?thesis
          proof (cases "nw < fst (bounds env img) \<or> nh < snd (bounds env img)")
            case False
            with o Inr p pf Some dims d assms show ?thesis
              by (auto simp: resizeImage_direct_def Let_def)
          next
            case True
            let ?w2 = "println (''Rescaled to '' @ showInt nw @ ''x'' @ showInt nh
                         @ '' with DPI ''
                         @ showInt (go_int (real_of_int nw
                              / (real_of_int (fst (bounds env img)) / real_of_int dpi))))
                         (fsCall (FsOpen filePath) w)"
            from True o Inr p pf Some dims d assms have wd: "wd = ?w2"
              by (simp add: resizeImage_direct_def Let_def)
            obtain r' w3 where sv: "saveImage_direct env
                  (resizeLib env (go_uint nw) (go_uint nh) img algo) outputPath format quality
                  (go_int (real_of_int nw
                     / (real_of_int (fst (bounds env img)) / real_of_int dpi))) ?w2 = (r', w3)"
              by (cases "saveImage_direct env
                  (resizeLib env (go_uint nw) (go_uint nh) img algo) outputPath format quality
                  (go_int (real_of_int nw
                     / (real_of_int (fst (bounds env img)) / real_of_int dpi))) ?w2")
            from True o Inr p pf Some dims d sv
            have nd: "resizeImage_direct env filePath outputPath False memoryLimit algo quality
                        dpi w = Returns r' w3"
              by (cases r') (simp_all add: resizeImage_direct_def Let_def)
            from saveImage_direct_log [OF sv] nd wd show ?thesis
              by (auto simp: println_def fsCall_def)
          qed
        qed
      qed
    qed
  qed
qed

section \<open>Claims about the diagnostic sink\<close>

text \<open>
  C9 (flush). After any sequence of appends, \<open>flushMessages\<close> prints what the buffer held
  followed by the appended messages, in the order of the appends, leaves the buffer empty
  and makes no call to the file system; a second flush changes nothing.
\<close>

theorem flush_prints_in_order:
  "console (flushMessages (foldl (\<lambda>w' message. safePrint message w') w messages))
     = console w @ messageQueue w @ messages
   \<and> messageQueue (flushMessages (foldl (\<lambda>w' message. safePrint message w') w messages)) = []
   \<and> fsLog (flushMessages (foldl (\<lambda>w' message. safePrint message w') w messages)) = fsLog w
   \<and> flushMessages (flushMessages (foldl (\<lambda>w' message. safePrint message w') w messages))
       = flushMessages (foldl (\<lambda>w' message. safePrint message w') w messages)"
  by (simp add: flushMessages_eq safePrint_fold)

end
